theory Spec2Isabelle
  imports Main "HOL-Library.Sublist"
begin

section \<open>t3rep: monthly CSV reports, embedded from main.go\<close>

text \<open>
  The program is one Go file. Its functions are embedded below in the order of the
  source. Go strings are byte strings (\<open>string\<close>), Go's \<open>int\<close> is modelled by
  \<open>int\<close> (no arithmetic of the program comes near the 64-bit bounds), and the three
  ways a Go call can end are the constructors of \<open>outcome\<close>.
\<close>

subsection \<open>How a call ends\<close>

text \<open>
  \<open>Return v\<close>: the call returns \<open>v\<close>. \<open>Panic m\<close>: a run-time panic with message
  \<open>m\<close> (nothing in main.go recovers, so the process dies). \<open>Exit\<close>: the process was
  ended by \<open>os.Exit(1)\<close>, which is what \<open>log.Fatalf\<close> does after printing.
\<close>

datatype 'a outcome = Return 'a | Panic string | Exit

subsection \<open>make of a slice\<close>

text \<open>
  \<open>make([]T, n)\<close> is the runtime's \<open>makeslice\<close>: it panics when \<open>n\<close> is negative,
  and when \<open>n\<close> elements of \<open>elemsize\<close> bytes each are more than \<open>maxAlloc\<close>, the
  largest allocation the runtime admits (\<open>2 ^ 48\<close> bytes on the 64-bit platforms; a
  product that overflows the machine word is larger than that). Otherwise the slice
  has \<open>n\<close> zero elements. An allocation that the runtime admits is taken to be
  served: how much memory the machine has is not part of the model.
\<close>

definition maxAlloc :: int where
  "maxAlloc = 2 ^ 48"

definition makeslice :: "int \<Rightarrow> int \<Rightarrow> nat outcome" where
  "makeslice elemsize n =
     (if n < 0 \<or> elemsize * n > maxAlloc then Panic ''makeslice: len out of range''
      else Return (nat n))"

subsection \<open>formatCSV (main.go, lines 47-59)\<close>

definition dquote :: char where
  "dquote = CHR 0x22"

definition backslash :: char where
  "backslash = CHR 0x5C"

text \<open>
  \<open>strings.Replace(s, old, new, -1)\<close> for a non-empty \<open>old\<close>: scanning from the
  left, every occurrence of \<open>old\<close> that does not overlap an earlier one is replaced.
\<close>

function strings_Replace :: "string \<Rightarrow> string \<Rightarrow> string \<Rightarrow> string" where
  "strings_Replace [] old new = []"
| "strings_Replace (c # cs) old new =
     (if old \<noteq> [] \<and> prefix old (c # cs)
      then new @ strings_Replace (drop (length old) (c # cs)) old new
      else c # strings_Replace cs old new)"
  by pat_completeness auto
termination
  by (relation "measure (\<lambda>(s, old, new). length s)") (auto simp: neq_Nil_conv)

text \<open>
  The loop of formatCSV over the fields, with the index \<open>i\<close> of the source and the
  buffer as accumulator. \<open>fmt.Fprintf(buf, ";\"%s\"", f)\<close> appends a semicolon, a
  double quote, \<open>f\<close> and a double quote.
\<close>

fun formatCSV_loop :: "nat \<Rightarrow> string list \<Rightarrow> string \<Rightarrow> string" where
  "formatCSV_loop i [] buf = buf"
| "formatCSV_loop i (f # fs) buf =
     (let f' = strings_Replace f [dquote] [backslash, dquote]
      in formatCSV_loop (i + 1) fs
           (if i > 0 then buf @ [CHR '';'', dquote] @ f' @ [dquote]
            else buf @ [dquote] @ f' @ [dquote]))"

text \<open>
  formatCSV resets the buffer it is given, fills it and returns its bytes: the result is
  the pair of the buffer afterwards and the returned line.
\<close>

definition formatCSV :: "string \<Rightarrow> string list \<Rightarrow> string \<times> string" where
  "formatCSV buf flds =
     (let buf0 = [];
          buf1 = formatCSV_loop 0 flds buf0;
          buf2 = buf1 @ [CHR 0x0D, CHR 0x0A]
      in (buf2, buf2))"

text \<open>
  The CSV dialect in the words of the specification: every double quote of a field
  becomes backslash, double quote, and every other byte stays; a field is wrapped in
  double quotes; the wrapped fields are joined by semicolons; the line ends with CR LF.
\<close>

definition spec_escape :: "string \<Rightarrow> string" where
  "spec_escape f = concat (map (\<lambda>c. if c = dquote then [backslash, dquote] else [c]) f)"

fun spec_join :: "string \<Rightarrow> string list \<Rightarrow> string" where
  "spec_join sep [] = []"
| "spec_join sep [x] = x"
| "spec_join sep (x # y # ys) = x @ sep @ spec_join sep (y # ys)"

definition spec_csv_line :: "string list \<Rightarrow> string" where
  "spec_csv_line flds =
     spec_join [CHR '';''] (map (\<lambda>f. [dquote] @ spec_escape f @ [dquote]) flds)
       @ [CHR 0x0D, CHR 0x0A]"

subsection \<open>Go's package time, as far as main.go uses it\<close>

text \<open>
  main.go builds its windows with \<open>time.Date\<close>, \<open>Time.AddDate\<close>, \<open>Time.Add\<close>,
  \<open>Time.Year\<close>, \<open>Time.Month\<close> and \<open>Time.Format\<close>, all in \<open>time.Local\<close>. The
  package is modelled at the granularity of one second (every time main.go builds
  has zero nanoseconds; of \<open>now\<close> only the year and the month are read).

  A \<open>Location\<close> is the zone table of the process: the offset east of UTC, in seconds,
  in force before the first transition, and the transitions in ascending order, each
  the UTC second it happens at and the offset from then on. Which table
  \<open>time.Local\<close> holds is decided by the machine the program runs on, so the
  functions below take it as a parameter.
\<close>

record Location =
  zone0 :: int
  tx :: "(int \<times> int) list"

definition UTC :: Location where
  "UTC = \<lparr>zone0 = 0, tx = []\<rparr>"

text \<open>
  Central European time around 2024, from the tz database (Europe/Berlin): UTC+2 in
  the summer of 2023, UTC+1 from 2023-10-29 01:00:00 UTC, UTC+2 from 2024-03-31
  01:00:00 UTC, UTC+1 from 2024-10-27 01:00:00 UTC. (The table of the database goes
  on in both directions; the times used below lie between October 2023 and October
  2024.)
\<close>

definition Europe_Berlin :: Location where
  "Europe_Berlin =
     \<lparr>zone0 = 7200, tx = [(1698541200, 3600), (1711846800, 7200), (1729990800, 3600)]\<rparr>"

definition alpha :: int where
  "alpha = - (2 ^ 63)"

definition omega :: int where
  "omega = 2 ^ 63 - 1"

text \<open>
  \<open>Location.lookup\<close>: the offset in force at the UTC second \<open>sec\<close>, and the bounds
  \<open>[zstart, zend)\<close> of the period it is in force for. Go searches the sorted
  transitions by bisection; the scan below finds the same entry.
\<close>

fun lookup_tx :: "(int \<times> int) list \<Rightarrow> int \<Rightarrow> int \<times> int \<times> int \<Rightarrow> int \<times> int \<times> int" where
  "lookup_tx [] sec cur = cur"
| "lookup_tx ((when, off) # rest) sec (offset, zstart, zend) =
     (if sec < when then (offset, zstart, when)
      else lookup_tx rest sec (off, when, omega))"

definition lookup :: "Location \<Rightarrow> int \<Rightarrow> int \<times> int \<times> int" where
  "lookup l sec = lookup_tx (tx l) sec (zone0 l, alpha, omega)"

text \<open>A \<open>Time\<close> is an instant (seconds since 1970-01-01 00:00:00 UTC) and a location.\<close>

record Time =
  unixSec :: int
  loc :: Location

text \<open>\<open>norm\<close> of package time: carry \<open>lo\<close> into \<open>hi\<close> until \<open>0 \<le> lo < base\<close>.\<close>

definition norm :: "int \<Rightarrow> int \<Rightarrow> int \<Rightarrow> int \<times> int" where
  "norm hi lo base =
     (let (hi1, lo1) =
            (if lo < 0 then (let n = (- lo - 1) div base + 1 in (hi - n, lo + n * base))
             else (hi, lo));
          (hi2, lo2) =
            (if lo1 \<ge> base then (let n = lo1 div base in (hi1 + n, lo1 - n * base))
             else (hi1, lo1))
      in (hi2, lo2))"

definition isLeap :: "int \<Rightarrow> bool" where
  "isLeap year = (year mod 4 = 0 \<and> (year mod 100 \<noteq> 0 \<or> year mod 400 = 0))"

definition daysBefore :: "int list" where
  "daysBefore = [0, 31, 59, 90, 120, 151, 181, 212, 243, 273, 304, 334, 365]"

text \<open>
  Days from the calendar's origin to 1 January of \<open>year\<close>, by cycles of 400, 100, 4
  and 1 years. Go counts from 1 January of a year congruent to 1 modulo 400 so far
  back that its unsigned arithmetic never meets a negative number; here the origin is
  0001-01-01 and division rounds down, so the cycles fall on the same years.
\<close>

definition daysSinceEpoch :: "int \<Rightarrow> int" where
  "daysSinceEpoch year =
     (let y = year - 1;
          n400 = y div 400; y1 = y - 400 * n400;
          n100 = y1 div 100; y2 = y1 - 100 * n100;
          n4 = y2 div 4; y3 = y2 - 4 * n4
      in 146097 * n400 + 36524 * n100 + 1461 * n4 + 365 * y3)"

text \<open>1970-01-01 is day 719162 after 0001-01-01.\<close>

definition absoluteToUnix :: int where
  "absoluteToUnix = - (719162 * 86400)"

text \<open>
  \<open>time.Date\<close>: the fields may be out of range and are normalised; the wall-clock
  second is then turned into an instant with the offset that \<open>lookup\<close> gives, looked up
  a second time when the first guess lies outside its own period. (Releases of Go
  differ in how they make the second guess; they agree whenever the wall-clock
  second is not within a zone offset of a transition.)
\<close>

definition Date :: "int \<Rightarrow> int \<Rightarrow> int \<Rightarrow> int \<Rightarrow> int \<Rightarrow> int \<Rightarrow> Location \<Rightarrow> Time" where
  "Date year month day hour minute sec l =
     (let m = month - 1;
          (year, m) = norm year m 12;
          month = m + 1;
          (minute, sec) = norm minute sec 60;
          (hour, minute) = norm hour minute 60;
          (day, hour) = norm day hour 24;
          d = daysSinceEpoch year + daysBefore ! nat (month - 1)
                + (if isLeap year \<and> month \<ge> 3 then 1 else 0)
                + (day - 1);
          absec = d * 86400 + (hour * 3600 + minute * 60 + sec);
          unix = absec + absoluteToUnix;
          (offset, zstart, zend) = lookup l unix;
          unix = (if offset \<noteq> 0
                  then (let utc = unix - offset;
                            offset = (if utc < zstart \<or> utc \<ge> zend
                                      then fst (lookup l utc) else offset)
                        in unix - offset)
                  else unix)
      in \<lparr>unixSec = unix, loc = l\<rparr>)"

text \<open>\<open>Time.abs\<close>: the wall-clock second of \<open>t\<close> in its location, counted from the origin.\<close>

definition abs_of :: "Time \<Rightarrow> int" where
  "abs_of t = unixSec t + fst (lookup (loc t) (unixSec t)) - absoluteToUnix"

text \<open>
  \<open>absDate\<close>: year, month and day of a wall-clock second, in the two parts of the
  source. First the year and the day within it (all that \<open>absDate\<close> computes when
  called with \<open>full = false\<close>): cycles of 400, 100, 4 and 1 years are cut off;
  \<open>n - n div 4\<close> is Go's \<open>n -= n >> 2\<close>, since the last day of a long cycle
  belongs to its last year. Then the month and the day: the month is estimated as if
  every month had 31 days and corrected by at most one.
\<close>

definition absYearDay :: "int \<Rightarrow> int \<times> int" where
  "absYearDay days =
     (let d = days;
          n = d div 146097; y = 400 * n; d = d - 146097 * n;
          n = d div 36524; n = n - n div 4; y = y + 100 * n; d = d - 36524 * n;
          n = d div 1461; y = y + 4 * n; d = d - 1461 * n;
          n = d div 365; n = n - n div 4; y = y + n; d = d - 365 * n
      in (y + 1, d))"

definition monthDay :: "bool \<Rightarrow> int \<Rightarrow> int \<times> int" where
  "monthDay leap yday =
     (let day = yday
      in if leap \<and> day = 31 + 29 - 1 then (2, 29)
         else (let day = (if leap \<and> day > 31 + 29 - 1 then day - 1 else day);
                   month = day div 31;
                   mend = daysBefore ! nat (month + 1);
                   (month, begin) = (if day \<ge> mend then (month + 1, mend)
                                     else (month, daysBefore ! nat month))
               in (month + 1, day - begin + 1)))"

definition absDate :: "int \<Rightarrow> int \<times> int \<times> int" where
  "absDate absec =
     (let (year, yday) = absYearDay (absec div 86400);
          (month, day) = monthDay (isLeap year) yday
      in (year, month, day))"

definition Year :: "Time \<Rightarrow> int" where
  "Year t = fst (absDate (abs_of t))"

definition Month :: "Time \<Rightarrow> int" where
  "Month t = fst (snd (absDate (abs_of t)))"

definition Day :: "Time \<Rightarrow> int" where
  "Day t = snd (snd (absDate (abs_of t)))"

definition Clock :: "Time \<Rightarrow> int \<times> int \<times> int" where
  "Clock t =
     (let sec = abs_of t mod 86400;
          hour = sec div 3600; sec = sec - hour * 3600;
          minute = sec div 60; sec = sec - minute * 60
      in (hour, minute, sec))"

text \<open>\<open>Time.AddDate\<close> rebuilds the time from its shifted calendar fields.\<close>

definition AddDate :: "Time \<Rightarrow> int \<Rightarrow> int \<Rightarrow> int \<Rightarrow> Time" where
  "AddDate t years months days =
     (let (year, month, day) = absDate (abs_of t);
          (hour, minute, sec) = Clock t
      in Date (year + years) (month + months) (day + days) hour minute sec (loc t))"

text \<open>\<open>Time.Add\<close> moves the instant; a \<open>Duration\<close> is a number of seconds here.\<close>

definition Add :: "Time \<Rightarrow> int \<Rightarrow> Time" where
  "Add t d = t\<lparr>unixSec := unixSec t + d\<rparr>"

definition Second :: int where
  "Second = 1"

definition Minute :: int where
  "Minute = 60 * Second"

definition Hour :: int where
  "Hour = 60 * Minute"

text \<open>Decimal digits of a natural number, and the paddings of \<open>time\<close> and \<open>fmt\<close>.\<close>

fun digits :: "nat \<Rightarrow> string" where
  "digits n = (if n < 10 then [char_of (48 + n)]
               else digits (n div 10) @ [char_of (48 + n mod 10)])"

declare digits.simps [simp del]

definition zero_pad :: "nat \<Rightarrow> string \<Rightarrow> string" where
  "zero_pad width s = replicate (width - length s) (CHR ''0'') @ s"

text \<open>\<open>appendInt\<close> of package time: a sign, then at least \<open>width\<close> digits.\<close>

definition appendInt :: "int \<Rightarrow> nat \<Rightarrow> string" where
  "appendInt x width =
     (if x < 0 then ''-'' @ zero_pad width (digits (nat (- x)))
      else zero_pad width (digits (nat x)))"

text \<open>\<open>t.Format("2006-01-02 15:04:05")\<close>.\<close>

definition Format :: "Time \<Rightarrow> string" where
  "Format t =
     (let (year, month, day) = absDate (abs_of t);
          (hour, minute, sec) = Clock t
      in appendInt year 4 @ ''-'' @ appendInt month 2 @ ''-'' @ appendInt day 2 @ '' ''
         @ appendInt hour 2 @ '':'' @ appendInt minute 2 @ '':'' @ appendInt sec 2)"

text \<open>
  The verbs \<open>%d\<close> and \<open>%02d\<close> of \<open>fmt.Sprintf\<close>. With the zero flag the sign counts
  in the width. \<open>time.Month\<close> is an integer type and \<open>%d\<close> prints its number.
\<close>

definition fmt_d :: "int \<Rightarrow> string" where
  "fmt_d x = (if x < 0 then ''-'' @ digits (nat (- x)) else digits (nat x))"

definition fmt_02d :: "int \<Rightarrow> string" where
  "fmt_02d x = (if x < 0 then ''-'' @ zero_pad 1 (digits (nat (- x)))
                else zero_pad 2 (digits (nat x)))"

subsection \<open>filepath.Join\<close>

text \<open>
  \<open>filepath.Join\<close> drops empty elements, joins the rest with a slash and cleans the
  result. \<open>Clean\<close> reads the path from the left and writes into \<open>out\<close>: an empty
  element and a \<open>.\<close> element are skipped, a \<open>..\<close> element removes the element written
  last (\<open>backtrack\<close>; \<open>dotdot\<close> is the length of \<open>out\<close> that \<open>..\<close> must not cut into),
  any other element is copied after a slash.
\<close>

fun backtrack :: "string \<Rightarrow> nat \<Rightarrow> nat \<Rightarrow> nat" where
  "backtrack out dotdot w =
     (if w > dotdot \<and> out ! w \<noteq> CHR ''/'' then backtrack out dotdot (w - 1) else w)"

declare backtrack.simps [simp del]

function clean_loop :: "bool \<Rightarrow> string \<Rightarrow> string \<Rightarrow> nat \<Rightarrow> string" where
  "clean_loop rooted [] out dotdot = out"
| "clean_loop rooted (c # cs) out dotdot =
     (if c = CHR ''/'' then clean_loop rooted cs out dotdot
      else if c = CHR ''.'' \<and> (cs = [] \<or> hd cs = CHR ''/'')
        then clean_loop rooted cs out dotdot
      else if c = CHR ''.'' \<and> hd cs = CHR ''.'' \<and> (tl cs = [] \<or> hd (tl cs) = CHR ''/'')
        then (if length out > dotdot
              then clean_loop rooted (tl cs)
                     (take (backtrack out dotdot (length out - 1)) out) dotdot
              else if \<not> rooted
              then (let out' = (if length out > 0 then out @ ''/'' else out) @ ''..''
                    in clean_loop rooted (tl cs) out' (length out'))
              else clean_loop rooted (tl cs) out dotdot)
      else (let out' = (if rooted \<and> length out \<noteq> 1 \<or> \<not> rooted \<and> length out \<noteq> 0
                        then out @ ''/'' else out)
            in clean_loop rooted (dropWhile (\<lambda>x. x \<noteq> CHR ''/'') cs)
                 (out' @ c # takeWhile (\<lambda>x. x \<noteq> CHR ''/'') cs) dotdot))"
  by pat_completeness auto
termination
  by (relation "measure (\<lambda>(rooted, p, out, dotdot). length p)")
     (auto intro: le_imp_less_Suc length_dropWhile_le)

definition Clean :: "string \<Rightarrow> string" where
  "Clean path =
     (if path = [] then ''.''
      else (let rooted = (hd path = CHR ''/'');
                out = (if rooted then clean_loop True (tl path) ''/'' 1
                       else clean_loop False path [] 0)
            in if out = [] then ''.'' else out))"

fun strings_Join :: "string list \<Rightarrow> string \<Rightarrow> string" where
  "strings_Join [] sep = []"
| "strings_Join [x] sep = x"
| "strings_Join (x # y # ys) sep = x @ sep @ strings_Join (y # ys) sep"

fun filepath_Join :: "string list \<Rightarrow> string" where
  "filepath_Join [] = []"
| "filepath_Join (e # es) =
     (if e \<noteq> [] then Clean (strings_Join (e # es) ''/'') else filepath_Join es)"

subsection \<open>report and makeReport (main.go, lines 129-156)\<close>

text \<open>
  The fields of a Go struct carry the struct's initial as a prefix here (\<open>r_\<close> for
  report, \<open>t_\<close> for task, \<open>rp_\<close> for reporter), since a record field is a constant of
  the whole theory.
\<close>

record report =
  r_name :: string
  r_fname :: string
  r_start :: Time
  r_end :: Time

definition makeReport :: "string \<Rightarrow> string \<Rightarrow> Time \<Rightarrow> report" where
  "makeReport nm dir st =
     \<lparr>r_name = nm,
      r_fname = filepath_Join
                  [dir, nm @ ''-'' @ fmt_d (Year st) @ ''-'' @ fmt_02d (Month st) @ ''.csv''],
      r_start = st,
      r_end = Add (AddDate st 0 1 (- 1)) (23 * Hour + 59 * Minute + 59 * Second)\<rparr>"

definition report_String :: "report \<Rightarrow> string" where
  "report_String r = r_fname r"

subsection \<open>task, newTask and reports (main.go, lines 158-178 and 194-202)\<close>

record conf =
  Query :: string
  Fields :: int
  Months :: int
  Directory :: string
  Systems :: "(string \<times> string) list"

record task =
  t_t :: Time
  t_name :: string
  t_dir :: string
  t_dsn :: string
  t_query :: string
  t_months :: int
  t_fields :: int

definition newTask :: "Time \<Rightarrow> string \<Rightarrow> string \<Rightarrow> conf \<Rightarrow> task" where
  "newTask t nm dsn cf =
     \<lparr>t_t = t, t_name = nm, t_dir = Directory cf, t_dsn = dsn, t_query = Query cf,
      t_months = Months cf, t_fields = Fields cf\<rparr>"

text \<open>
  The zero values that \<open>make([]report, n)\<close> fills the slice with: empty strings and
  the zero \<open>Time\<close>, 1 January of year 1 in UTC.
\<close>

definition zero_Time :: Time where
  "zero_Time = \<lparr>unixSec = - 62135596800, loc = UTC\<rparr>"

definition zero_report :: report where
  "zero_report = \<lparr>r_name = [], r_fname = [], r_start = zero_Time, r_end = zero_Time\<rparr>"

text \<open>The loop of reports, with its counter \<open>i\<close>, its anchor and the slice it fills.\<close>

function reports_loop :: "task \<Rightarrow> int \<Rightarrow> Time \<Rightarrow> report list \<Rightarrow> report list" where
  "reports_loop tk i anchor reps =
     (if i < t_months tk
      then (let anchor' = AddDate anchor 0 (- 1) 0
            in reports_loop tk (i + 1) anchor'
                 (reps[nat i := makeReport (t_name tk) (t_dir tk) anchor']))
      else reps)"
  by pat_completeness auto
termination
  by (relation "measure (\<lambda>(tk, i, anchor, reps). nat (t_months tk - i))") auto

declare reports_loop.simps [simp del]

text \<open>
  reports: \<open>make([]report, t.months)\<close> comes before the loop; a report is 80 bytes
  (two strings of 16 bytes and two \<open>time.Time\<close> of 24). \<open>Local\<close> is the zone table
  of \<open>time.Local\<close>. (The variable \<open>last\<close> of the source is \<open>anchor\<close> here.)
\<close>

definition reports :: "Location \<Rightarrow> task \<Rightarrow> report list outcome" where
  "reports Local tk =
     (let anchor = Date (Year (t_t tk)) (Month (t_t tk)) 1 0 0 0 Local
      in case makeslice 80 (t_months tk) of
           Panic m \<Rightarrow> Panic m
         | Exit \<Rightarrow> Exit
         | Return n \<Rightarrow> Return (reports_loop tk 0 anchor (replicate n zero_report)))"

subsection \<open>The file system, the database and the logs\<close>

text \<open>
  What the operating system and the database answer is not decided by main.go. An
  \<open>env\<close> fixes those answers: for each path whether stat, create, close and remove
  fail and with which error, for a write how many bytes get through before the error,
  for a connection string whether \<open>sql.Open\<close> fails, and for a query either the error
  of \<open>db.Query\<close> or the rows of the cursor, each a tuple of column values or a row
  whose \<open>Scan\<close> fails. The \<open>world\<close> is what the program changes: the files by path,
  and the list of what it has logged and called so far, oldest first.
\<close>

datatype errno = ENOENT | EACCES | ENOTDIR | ENOSPC | EIO | EBADF

datatype scan = Row "string list" | ScanErr string

datatype event =
    LogInfo string
  | LogErr string
  | OsCreate string
  | DbQuery string string string string
  | FileWrite string string
  | FileClose string
  | OsRemove string
  | DbClose string

record env =
  stat_fault :: "string \<Rightarrow> errno option"
  create_fault :: "string \<Rightarrow> errno option"
  write_fault :: "string \<Rightarrow> string \<Rightarrow> (nat \<times> errno) option"
  close_fault :: "string \<Rightarrow> errno option"
  remove_fault :: "string \<Rightarrow> errno option"
  open_fault :: "string \<Rightarrow> string option"
  query_result :: "string \<Rightarrow> string \<Rightarrow> string \<Rightarrow> string \<Rightarrow> string + scan list"

record world =
  files :: "string \<Rightarrow> string option"
  events :: "event list"

definition errno_text :: "errno \<Rightarrow> string" where
  "errno_text e =
     (case e of
        ENOENT \<Rightarrow> ''no such file or directory''
      | EACCES \<Rightarrow> ''permission denied''
      | ENOTDIR \<Rightarrow> ''not a directory''
      | ENOSPC \<Rightarrow> ''no space left on device''
      | EIO \<Rightarrow> ''input/output error''
      | EBADF \<Rightarrow> ''bad file descriptor'')"

text \<open>The text of an \<open>*os.PathError\<close>.\<close>

definition PathError :: "string \<Rightarrow> string \<Rightarrow> errno \<Rightarrow> string" where
  "PathError op path e = op @ '' '' @ path @ '': '' @ errno_text e"

definition record_event :: "event \<Rightarrow> world \<Rightarrow> world" where
  "record_event ev w = w\<lparr>events := events w @ [ev]\<rparr>"

text \<open>\<open>l.info.Printf\<close> and \<open>l.err.Printf\<close>, with the formatted message.\<close>

definition info_Printf :: "string \<Rightarrow> world \<Rightarrow> world" where
  "info_Printf msg w = record_event (LogInfo msg) w"

definition err_Printf :: "string \<Rightarrow> world \<Rightarrow> world" where
  "err_Printf msg w = record_event (LogErr msg) w"

text \<open>
  \<open>os.Stat\<close> changes nothing; its error is \<open>None\<close> on success. Without a fault it
  fails exactly when there is no file at the path, with ENOENT.
\<close>

definition os_Stat :: "env \<Rightarrow> world \<Rightarrow> string \<Rightarrow> errno option" where
  "os_Stat e w path =
     (case stat_fault e path of
        Some err \<Rightarrow> Some err
      | None \<Rightarrow> (case files w path of None \<Rightarrow> Some ENOENT | Some content \<Rightarrow> None))"

text \<open>\<open>os.IsNotExist\<close>: of the errors stat can give, only ENOENT; false for no error.\<close>

definition os_IsNotExist :: "errno option \<Rightarrow> bool" where
  "os_IsNotExist err = (err = Some ENOENT)"

text \<open>\<open>os.Create\<close> truncates or creates the file; the handle is the path.\<close>

definition os_Create :: "env \<Rightarrow> string \<Rightarrow> world \<Rightarrow> (errno + string) \<times> world" where
  "os_Create e path w =
     (let w1 = record_event (OsCreate path) w
      in case create_fault e path of
           Some err \<Rightarrow> (Inl err, w1)
         | None \<Rightarrow> (Inr path, w1\<lparr>files := (files w1)(path \<mapsto> [])\<rparr>))"

text \<open>\<open>(*os.File).Write\<close>: appends, or appends a part and fails.\<close>

definition file_Write :: "env \<Rightarrow> string \<Rightarrow> string \<Rightarrow> world \<Rightarrow> errno option \<times> world" where
  "file_Write e f bytes w =
     (let w1 = record_event (FileWrite f bytes) w
      in case files w1 f of
           None \<Rightarrow> (Some EBADF, w1)
         | Some content \<Rightarrow>
             (case write_fault e f content of
                Some (n, err) \<Rightarrow> (Some err, w1\<lparr>files := (files w1)(f \<mapsto> content @ take n bytes)\<rparr>)
              | None \<Rightarrow> (None, w1\<lparr>files := (files w1)(f \<mapsto> content @ bytes)\<rparr>)))"

definition file_Close :: "env \<Rightarrow> string \<Rightarrow> world \<Rightarrow> errno option \<times> world" where
  "file_Close e f w = (close_fault e f, record_event (FileClose f) w)"

definition os_Remove :: "env \<Rightarrow> string \<Rightarrow> world \<Rightarrow> errno option \<times> world" where
  "os_Remove e path w =
     (let w1 = record_event (OsRemove path) w
      in case remove_fault e path of
           Some err \<Rightarrow> (Some err, w1)
         | None \<Rightarrow>
             (case files w1 path of
                None \<Rightarrow> (Some ENOENT, w1)
              | Some content \<Rightarrow> (None, w1\<lparr>files := (files w1)(path := None)\<rparr>)))"

text \<open>\<open>sql.Open\<close>: the error, or the handle (the connection string itself).\<close>

definition sql_Open :: "env \<Rightarrow> string \<Rightarrow> string + string" where
  "sql_Open e dsn = (case open_fault e dsn of Some err \<Rightarrow> Inl err | None \<Rightarrow> Inr dsn)"

definition db_Close :: "string \<Rightarrow> world \<Rightarrow> world" where
  "db_Close db w = record_event (DbClose db) w"

subsection \<open>report.rows and report.exists (main.go, lines 145-152)\<close>

definition report_rows ::
  "env \<Rightarrow> report \<Rightarrow> string \<Rightarrow> string \<Rightarrow> world \<Rightarrow> (string + scan list) \<times> world" where
  "report_rows e r db query w =
     (let a = Format (r_start r); b = Format (r_end r)
      in (query_result e db query a b, record_event (DbQuery db query a b) w))"

definition report_exists :: "env \<Rightarrow> world \<Rightarrow> report \<Rightarrow> bool" where
  "report_exists e w r = (let err = os_Stat e w (r_fname r) in \<not> os_IsNotExist err)"

subsection \<open>extract (main.go, lines 61-78)\<close>

text \<open>
  The loop over the cursor. \<open>rows.Scan\<close> fails when the row does not have \<open>nassoc\<close>
  columns, or when the driver cannot convert a value (\<open>ScanErr\<close>); otherwise the
  columns are the new contents of \<open>assoc\<close>.
\<close>

fun extract_loop ::
  "env \<Rightarrow> string \<Rightarrow> scan list \<Rightarrow> int \<Rightarrow> string \<Rightarrow> world \<Rightarrow> string option \<times> world" where
  "extract_loop e f [] nassoc buf w = (None, w)"
| "extract_loop e f (row # rows) nassoc buf w =
     (case (case row of
              ScanErr m \<Rightarrow> Inl m
            | Row cols \<Rightarrow>
                if int (length cols) \<noteq> nassoc
                then Inl (''sql: expected '' @ fmt_d (int (length cols))
                          @ '' destination arguments in Scan, not '' @ fmt_d nassoc)
                else Inr cols) of
        Inl err \<Rightarrow> (Some (''cannot scan query: '' @ err), w)
      | Inr assoc \<Rightarrow>
          (let (buf', line) = formatCSV buf assoc;
               (werr, w') = file_Write e f line w
           in case werr of
                Some err \<Rightarrow> (Some (''cannot write line: '' @ PathError ''write'' f err), w')
              | None \<Rightarrow> extract_loop e f rows nassoc buf' w'))"

text \<open>
  extract (named \<open>extract_rows\<close> here). \<open>make([]string, nassoc)\<close> comes first, a
  string being 16 bytes; \<open>make([]interface{}, nassoc)\<close> after it has elements of the
  same size, so it succeeds whenever the first does. The loop that fills \<open>params\<close>
  with the addresses of \<open>assoc\<close> is what lets \<open>Scan\<close> write the columns into
  \<open>assoc\<close>.
\<close>

definition extract_rows ::
  "env \<Rightarrow> string \<Rightarrow> scan list \<Rightarrow> int \<Rightarrow> world \<Rightarrow> string option outcome \<times> world" where
  "extract_rows e f rows nassoc w =
     (case makeslice 16 nassoc of
        Panic m \<Rightarrow> (Panic m, w)
      | Exit \<Rightarrow> (Exit, w)
      | Return n \<Rightarrow>
          (let (err, w') = extract_loop e f rows nassoc [] w in (Return err, w')))"

subsection \<open>reporter: write and generate (main.go, lines 80-127)\<close>

record reporter =
  rp_db :: string
  rp_query :: string
  rp_nassoc :: int

definition newReporter :: "string \<Rightarrow> string \<Rightarrow> int \<Rightarrow> reporter" where
  "newReporter db query nassoc = \<lparr>rp_db = db, rp_query = query, rp_nassoc = nassoc\<rparr>"

definition reporter_write ::
  "env \<Rightarrow> reporter \<Rightarrow> string \<Rightarrow> report \<Rightarrow> world \<Rightarrow> string option outcome \<times> world" where
  "reporter_write e r f rep w =
     (case report_rows e rep (rp_db r) (rp_query r) w of
        (Inl err, w1) \<Rightarrow> (Return (Some (''cannot query: '' @ err)), w1)
      | (Inr rows, w1) \<Rightarrow> extract_rows e f rows (rp_nassoc r) w1)"

text \<open>
  generate returns nothing; the model returns how the call ended and the world it
  left. \<open>l.err.Fatalf\<close> prints and ends the process, so the removal that follows it in
  the source (lines 123-125) is never reached and has no counterpart here.
\<close>

definition generate :: "env \<Rightarrow> reporter \<Rightarrow> report \<Rightarrow> world \<Rightarrow> unit outcome \<times> world" where
  "generate e r rep w0 =
     (let w1 = info_Printf (report_String rep @ '': generating report'') w0
      in if report_exists e w1 rep
         then (Return (), info_Printf (report_String rep @ '': exists'') w1)
         else
           (case os_Create e (r_fname rep) w1 of
              (Inl err, w2) \<Rightarrow>
                (Return (), err_Printf (report_String rep @ '': cannot create file'') w2)
            | (Inr f, w2) \<Rightarrow>
                (case reporter_write e r f rep w2 of
                   (Panic m, w3) \<Rightarrow> (Panic m, w3)
                 | (Exit, w3) \<Rightarrow> (Exit, w3)
                 | (Return (Some err), w3) \<Rightarrow>
                     (let w4 = err_Printf
                                 (report_String rep @ '': cannot generate report: '' @ err) w3;
                          (cerr, w5) = file_Close e f w4;
                          (rerr, w6) = os_Remove e (r_fname rep) w5
                      in case rerr of
                           Some err2 \<Rightarrow>
                             (Return (),
                              err_Printf
                                (report_String rep
                                 @ '': cannot removed partial report file, remove it manually: ''
                                 @ PathError ''remove'' (r_fname rep) err2) w6)
                         | None \<Rightarrow> (Return (), w6))
                 | (Return None, w3) \<Rightarrow>
                     (case file_Close e f w3 of
                        (Some err, w4) \<Rightarrow>
                          (Exit,
                           err_Printf
                             (report_String rep @ '': cannot close file: ''
                              @ PathError ''close'' f err) w4)
                      | (None, w4) \<Rightarrow> (Return (), w4)))))"

subsection \<open>task.exec and work (main.go, lines 180-192 and 209-214)\<close>

text \<open>The loop of exec over the reports; a panic or an exit ends it.\<close>

fun generate_all :: "env \<Rightarrow> reporter \<Rightarrow> report list \<Rightarrow> world \<Rightarrow> unit outcome \<times> world" where
  "generate_all e r [] w = (Return (), w)"
| "generate_all e r (rep # reps) w =
     (case generate e r rep w of
        (Return u, w') \<Rightarrow> generate_all e r reps w'
      | (Panic m, w') \<Rightarrow> (Panic m, w')
      | (Exit, w') \<Rightarrow> (Exit, w'))"

text \<open>
  exec returns an error (\<open>Some\<close>) or nil (\<open>None\<close>). The deferred \<open>db.Close()\<close> runs
  when exec returns or panics, not when the process exits.
\<close>

definition exec :: "env \<Rightarrow> Location \<Rightarrow> task \<Rightarrow> world \<Rightarrow> string option outcome \<times> world" where
  "exec e Local tk w =
     (case sql_Open e (t_dsn tk) of
        Inl err \<Rightarrow>
          (Return (Some (t_name tk @ '': cannot connect to database: '' @ err)), w)
      | Inr db \<Rightarrow>
          (let r = newReporter db (t_query tk) (t_fields tk)
           in case reports Local tk of
                Panic m \<Rightarrow> (Panic m, db_Close db w)
              | Exit \<Rightarrow> (Exit, w)
              | Return reps \<Rightarrow>
                  (case generate_all e r reps w of
                     (Return u, w') \<Rightarrow> (Return None, db_Close db w')
                   | (Panic m, w') \<Rightarrow> (Panic m, db_Close db w')
                   | (Exit, w') \<Rightarrow> (Exit, w'))))"

definition work :: "env \<Rightarrow> Location \<Rightarrow> task \<Rightarrow> world \<Rightarrow> string option outcome \<times> world" where
  "work e Local tk w =
     (case exec e Local tk w of
        (Return (Some err), w') \<Rightarrow> (Return (Some (''creating report: '' @ err)), w')
      | (Return None, w') \<Rightarrow> (Return None, w')
      | (Panic m, w') \<Rightarrow> (Panic m, w')
      | (Exit, w') \<Rightarrow> (Exit, w'))"

subsection \<open>The admission gate of main (main.go, lines 252-255)\<close>

text \<open>
  main rewrites the value of the \<open>-parallel\<close> flag and makes the channel \<open>sem\<close> with
  that capacity; \<open>make(chan struct{}, n)\<close> panics on a negative \<open>n\<close>.
\<close>

definition main_parallel :: "int \<Rightarrow> int" where
  "main_parallel par = (if par > 0 then 1 else par)"

definition make_chan :: "int \<Rightarrow> nat outcome" where
  "make_chan n = (if n < 0 then Panic ''makechan: size out of range'' else Return (nat n))"

definition main_sem :: "int \<Rightarrow> nat outcome" where
  "main_sem par = make_chan (main_parallel par)"

subsection \<open>Reading the list of events\<close>

text \<open>
  \<open>new_events w w'\<close> is what was logged and called between the worlds \<open>w\<close> and \<open>w'\<close>;
  \<open>is_remove\<close> recognises a call of \<open>os.Remove\<close>.
\<close>

fun is_remove :: "event \<Rightarrow> bool" where
  "is_remove (OsRemove p) = True"
| "is_remove ev = False"

definition new_events :: "world \<Rightarrow> world \<Rightarrow> event list" where
  "new_events w w' = drop (length (events w)) (events w')"

subsection \<open>Concrete inputs\<close>

text \<open>
  An environment in which nothing fails and every query has no rows, the world with
  no file and no event, a reporter, the report of the system \<open>sys\<close> for February 2024
  in the directory \<open>out\<close>, and a task run on 15 March 2024 for one month back, in UTC.
\<close>

definition no_faults :: env where
  "no_faults =
     \<lparr>stat_fault = (\<lambda>p. None), create_fault = (\<lambda>p. None), write_fault = (\<lambda>p c. None),
      close_fault = (\<lambda>p. None), remove_fault = (\<lambda>p. None), open_fault = (\<lambda>d. None),
      query_result = (\<lambda>d q a b. Inr [])\<rparr>"

definition empty_world :: world where
  "empty_world = \<lparr>files = (\<lambda>p. None), events = []\<rparr>"

definition reporter0 :: reporter where
  "reporter0 = newReporter ''dsn'' ''SELECT a, b FROM log WHERE t BETWEEN ? AND ?'' 2"

definition rep_feb :: report where
  "rep_feb =
     \<lparr>r_name = ''sys'', r_fname = ''out/sys-2024-02.csv'',
      r_start = Date 2024 2 1 0 0 0 UTC, r_end = Date 2024 2 29 23 59 59 UTC\<rparr>"

definition task_march :: task where
  "task_march =
     \<lparr>t_t = Date 2024 3 15 12 30 0 UTC, t_name = ''sys'', t_dir = ''out'', t_dsn = ''dsn'',
      t_query = ''SELECT a, b FROM log WHERE t BETWEEN ? AND ?'', t_months = 1, t_fields = 2\<rparr>"

text \<open>Stat fails with a permission error on every path.\<close>

definition env_stat_denied :: env where
  "env_stat_denied = no_faults\<lparr>stat_fault := (\<lambda>p. Some EACCES)\<rparr>"

text \<open>Every query has one row of two columns, and every close fails.\<close>

definition env_close_fails :: env where
  "env_close_fails =
     no_faults\<lparr>close_fault := (\<lambda>p. Some EIO),
               query_result := (\<lambda>d q a b. Inr [Row [''a'', ''b'']])\<rparr>"

text \<open>Every query has one row of two columns, and nothing fails.\<close>

definition env_one_row :: env where
  "env_one_row = no_faults\<lparr>query_result := (\<lambda>d q a b. Inr [Row [''a'', ''b'']])\<rparr>"

text \<open>Every create is refused.\<close>

definition env_create_denied :: env where
  "env_create_denied = no_faults\<lparr>create_fault := (\<lambda>p. Some EACCES)\<rparr>"

text \<open>No connection string is accepted.\<close>

definition env_open_fails :: env where
  "env_open_fails = no_faults\<lparr>open_fault := (\<lambda>d. Some ''invalid DSN'')\<rparr>"

text \<open>
  The same system on 15 May 2024 for two months back, on a machine whose local zone
  is Europe/Berlin.
\<close>

definition task_may_berlin :: task where
  "task_may_berlin =
     \<lparr>t_t = Date 2024 5 15 12 30 0 Europe_Berlin, t_name = ''sys'', t_dir = ''out'',
      t_dsn = ''dsn'', t_query = ''SELECT a, b FROM log WHERE t BETWEEN ? AND ?'',
      t_months = 2, t_fields = 2\<rparr>"

text \<open>What a list of reports says: file name, first and last second, as the query gets them.\<close>

definition window :: "report \<Rightarrow> string \<times> string \<times> string" where
  "window r = (r_fname r, Format (r_start r), Format (r_end r))"

definition windows :: "report list outcome \<Rightarrow> (string \<times> string \<times> string) list" where
  "windows res = (case res of Return reps \<Rightarrow> map window reps | Panic m \<Rightarrow> [] | Exit \<Rightarrow> [])"

definition instants :: "report list outcome \<Rightarrow> (int \<times> int) list" where
  "instants res =
     (case res of
        Return reps \<Rightarrow> map (\<lambda>r. (unixSec (r_start r), unixSec (r_end r))) reps
      | Panic m \<Rightarrow> []
      | Exit \<Rightarrow> [])"

text \<open>A configuration with two systems, and the moment of a run.\<close>

definition conf_two :: conf where
  "conf_two =
     \<lparr>Query = ''SELECT a, b FROM log WHERE t BETWEEN ? AND ?'', Fields = 2, Months = 1,
      Directory = ''out'', Systems = [(''a'', ''dsn_a''), (''b'', ''dsn_b'')]\<rparr>"

definition now_march :: Time where
  "now_march = Date 2024 3 15 12 30 0 UTC"

section \<open>Properties\<close>

subsection \<open>The CSV formatter\<close>

lemma strings_Replace_char:
  "strings_Replace s [q] new = concat (map (\<lambda>c. if c = q then new else [c]) s)"
  by (induction s) auto

lemma formatCSV_loop_join:
  "formatCSV_loop i fs buf =
     buf @ (if i > 0 \<and> fs \<noteq> [] then [CHR '';''] else [])
         @ spec_join [CHR '';''] (map (\<lambda>f. [dquote] @ spec_escape f @ [dquote]) fs)"
proof (induction fs arbitrary: i buf)
  case Nil
  show ?case by simp
next
  case (Cons f fs)
  show ?case
  proof (cases fs)
    case Nil
    then show ?thesis
      by (simp add: strings_Replace_char spec_escape_def)
  next
    case (Cons g gs)
    then show ?thesis
      using Cons.IH [of "i + 1"]
      by (simp add: strings_Replace_char spec_escape_def)
  qed
qed

text \<open>
  C6. For every list of fields and whatever the buffer held, formatCSV returns the
  fields, each wrapped in double quotes with its double quotes (and nothing else)
  escaped by a backslash, joined by semicolons and ended by CR LF; a semicolon, a
  backslash, a CR or an LF inside a field is copied as it is; the field a"b becomes
  "a\"b".
\<close>

theorem formatCSV_dialect:
  "snd (formatCSV buf flds) = spec_csv_line flds
   \<and> strings_Replace f [dquote] [backslash, dquote] = spec_escape f
   \<and> spec_escape [CHR '';'', backslash, CHR 0x0D, CHR 0x0A]
        = [CHR '';'', backslash, CHR 0x0D, CHR 0x0A]
   \<and> snd (formatCSV buf [[CHR ''a'', dquote, CHR ''b'']])
        = [dquote, CHR ''a'', backslash, dquote, CHR ''b'', dquote, CHR 0x0D, CHR 0x0A]"
proof (intro conjI)
  show "snd (formatCSV buf flds) = spec_csv_line flds"
    by (simp add: formatCSV_def Let_def formatCSV_loop_join spec_csv_line_def)
  show "strings_Replace f [dquote] [backslash, dquote] = spec_escape f"
    by (simp add: strings_Replace_char spec_escape_def)
  show "spec_escape [CHR '';'', backslash, CHR 0x0D, CHR 0x0A]
          = [CHR '';'', backslash, CHR 0x0D, CHR 0x0A]"
    by (simp add: spec_escape_def dquote_def backslash_def)
  show "snd (formatCSV buf [[CHR ''a'', dquote, CHR ''b'']])
          = [dquote, CHR ''a'', backslash, dquote, CHR ''b'', dquote, CHR 0x0D, CHR 0x0A]"
    by (simp add: formatCSV_def Let_def dquote_def backslash_def)
qed

subsection \<open>What the operations do to the world\<close>

lemma report_exists_record_event [simp]:
  "report_exists e (record_event ev w) rep = report_exists e w rep"
  by (simp add: report_exists_def os_Stat_def record_event_def split: option.splits)

lemma generate_skip:
  assumes "report_exists e w rep"
  shows "generate e r rep w =
           (Return (),
            w\<lparr>events := events w @ [LogInfo (r_fname rep @ '': generating report''),
                                     LogInfo (r_fname rep @ '': exists'')]\<rparr>)"
proof -
  have "report_exists e (info_Printf (report_String rep @ '': generating report'') w) rep"
    using assms by (simp add: info_Printf_def)
  then show ?thesis
    by (simp add: generate_def Let_def)
       (simp add: info_Printf_def report_String_def record_event_def)
qed

lemma report_exists_iff:
  "report_exists e w rep = (os_Stat e w (r_fname rep) \<noteq> Some ENOENT)"
  by (simp add: report_exists_def os_IsNotExist_def)

lemma file_Write_events:
  "events (snd (file_Write e f bytes w)) = events w @ [FileWrite f bytes]"
  by (simp add: file_Write_def Let_def record_event_def split: option.splits prod.splits)

lemma file_Write_files:
  "files w f \<noteq> None \<Longrightarrow> files (snd (file_Write e f bytes w)) f \<noteq> None"
  by (simp add: file_Write_def Let_def record_event_def split: option.splits prod.splits)

lemma extract_loop_events:
  "\<exists>evs. events (snd (extract_loop e f rows n buf w)) = events w @ evs \<and> list_all (\<lambda>ev. \<not> is_remove ev) evs"
proof (induction rows arbitrary: buf w)
  case Nil
  show ?case by simp
next
  case (Cons row rows)
  show ?case
  proof (cases "case row of ScanErr m \<Rightarrow> Inl m
            | Row cols \<Rightarrow>
                if int (length cols) \<noteq> n
                then Inl (''sql: expected '' @ fmt_d (int (length cols))
                          @ '' destination arguments in Scan, not '' @ fmt_d n)
                else Inr cols")
    case (Inl a)
    then show ?thesis by simp
  next
    case (Inr assoc)
    obtain buf' line where fc: "formatCSV buf assoc = (buf', line)" by (cases "formatCSV buf assoc")
    obtain werr w' where fw: "file_Write e f line w = (werr, w')" by (cases "file_Write e f line w")
    have ev: "events w' = events w @ [FileWrite f line]"
      using file_Write_events [of e f line w] fw by simp
    show ?thesis
    proof (cases werr)
      case None
      from Cons.IH [of buf' w'] obtain evs where
        "events (snd (extract_loop e f rows n buf' w')) = events w' @ evs" "list_all (\<lambda>ev. \<not> is_remove ev) evs"
        by blast
      then show ?thesis using Inr fc fw None ev
        by (intro exI [of _ "FileWrite f line # evs"]) simp
    next
      case (Some a)
      then show ?thesis using Inr fc fw ev
        by (intro exI [of _ "[FileWrite f line]"]) simp
    qed
  qed
qed


lemma extract_loop_files:
  "files w f \<noteq> None \<Longrightarrow> files (snd (extract_loop e f rows n buf w)) f \<noteq> None"
proof (induction rows arbitrary: buf w)
  case Nil
  then show ?case by simp
next
  case (Cons row rows)
  show ?case
  proof (cases "case row of ScanErr m \<Rightarrow> Inl m
            | Row cols \<Rightarrow>
                if int (length cols) \<noteq> n
                then Inl (''sql: expected '' @ fmt_d (int (length cols))
                          @ '' destination arguments in Scan, not '' @ fmt_d n)
                else Inr cols")
    case (Inl a)
    then show ?thesis using Cons.prems by simp
  next
    case (Inr assoc)
    obtain buf' line where fc: "formatCSV buf assoc = (buf', line)" by (cases "formatCSV buf assoc")
    obtain werr w' where fw: "file_Write e f line w = (werr, w')" by (cases "file_Write e f line w")
    have fl: "files w' f \<noteq> None"
      using file_Write_files [OF Cons.prems, of e line] fw by simp
    show ?thesis
    proof (cases werr)
      case None
      then show ?thesis using Inr fc fw Cons.IH [OF fl, of buf'] by simp
    next
      case (Some a)
      then show ?thesis using Inr fc fw fl by simp
    qed
  qed
qed


lemma makeslice_cases:
  "makeslice elemsize n = Panic ''makeslice: len out of range''
   \<or> makeslice elemsize n = Return (nat n)"
  by (simp add: makeslice_def)

lemma snd_extract_rows:
  "makeslice 16 n = Return k \<Longrightarrow>
   snd (extract_rows e f rows n w) = snd (extract_loop e f rows n [] w)"
  by (simp add: extract_rows_def case_prod_beta)

lemma snd_extract_rows_Panic:
  "makeslice 16 n = Panic m \<Longrightarrow> snd (extract_rows e f rows n w) = w"
  by (simp add: extract_rows_def)

lemma reporter_write_events:
  "\<exists>evs. events (snd (reporter_write e r f rep w)) = events w @ evs
         \<and> list_all (\<lambda>ev. \<not> is_remove ev) evs"
proof (cases "query_result e (rp_db r) (rp_query r) (Format (r_start rep)) (Format (r_end rep))")
  case (Inl err)
  then show ?thesis
    by (simp add: reporter_write_def report_rows_def Let_def record_event_def)
next
  case (Inr rows)
  define w1 where "w1 = record_event (DbQuery (rp_db r) (rp_query r) (Format (r_start rep)) (Format (r_end rep))) w"
  have rw: "reporter_write e r f rep w = extract_rows e f rows (rp_nassoc r) w1"
    using Inr by (simp add: reporter_write_def report_rows_def Let_def w1_def)
  show ?thesis
  proof (cases "makeslice 16 (rp_nassoc r)")
    case (Panic m)
    then show ?thesis
      unfolding rw by (simp add: snd_extract_rows_Panic w1_def record_event_def)
  next
    case Exit
    then show ?thesis using makeslice_cases [of 16 "rp_nassoc r"] by simp
  next
    case (Return k)
    from extract_loop_events [of e f rows "rp_nassoc r" "[]" w1] obtain evs where
      "events (snd (extract_loop e f rows (rp_nassoc r) [] w1)) = events w1 @ evs"
      "list_all (\<lambda>ev. \<not> is_remove ev) evs" by blast
    then show ?thesis
      unfolding rw
      by (intro exI [of _ "DbQuery (rp_db r) (rp_query r) (Format (r_start rep)) (Format (r_end rep)) # evs"])
         (simp add: snd_extract_rows [OF Return] w1_def record_event_def)
  qed
qed

lemma reporter_write_files:
  assumes "files w f \<noteq> None"
  shows "files (snd (reporter_write e r f rep w)) f \<noteq> None"
proof (cases "query_result e (rp_db r) (rp_query r) (Format (r_start rep)) (Format (r_end rep))")
  case (Inl err)
  then show ?thesis using assms
    by (simp add: reporter_write_def report_rows_def Let_def record_event_def)
next
  case (Inr rows)
  define w1 where "w1 = record_event (DbQuery (rp_db r) (rp_query r) (Format (r_start rep)) (Format (r_end rep))) w"
  have rw: "reporter_write e r f rep w = extract_rows e f rows (rp_nassoc r) w1"
    using Inr by (simp add: reporter_write_def report_rows_def Let_def w1_def)
  have f1: "files w1 f \<noteq> None" using assms by (simp add: w1_def record_event_def)
  show ?thesis
  proof (cases "makeslice 16 (rp_nassoc r)")
    case (Panic m)
    then show ?thesis unfolding rw using f1 by (simp add: snd_extract_rows_Panic)
  next
    case Exit
    then show ?thesis using makeslice_cases [of 16 "rp_nassoc r"] by simp
  next
    case (Return k)
    then show ?thesis
      unfolding rw using extract_loop_files [OF f1, of e rows "rp_nassoc r" "[]"]
      by (simp add: snd_extract_rows [OF Return])
  qed
qed

lemma generate_reaches_create:
  assumes "\<not> report_exists e w rep"
  shows "prefix (events w @ [LogInfo (r_fname rep @ '': generating report''),
                             OsCreate (r_fname rep)])
                (events (snd (generate e r rep w)))"
proof -
  define w1 where "w1 = info_Printf (report_String rep @ '': generating report'') w"
  have ne: "\<not> report_exists e w1 rep" using assms by (simp add: w1_def info_Printf_def)
  obtain c w2 where cr: "os_Create e (r_fname rep) w1 = (c, w2)"
    by (cases "os_Create e (r_fname rep) w1")
  have ev2: "events w2 = events w @ [LogInfo (r_fname rep @ '': generating report''),
                             OsCreate (r_fname rep)]"
    using cr by (auto simp: os_Create_def Let_def w1_def info_Printf_def record_event_def
        report_String_def split: option.splits)
  show ?thesis
  proof (cases c)
    case (Inl err)
    then show ?thesis using ne cr ev2
      by (simp add: generate_def Let_def w1_def [symmetric] err_Printf_def record_event_def)
  next
    case (Inr f)
    obtain res w3 where rw: "reporter_write e r f rep w2 = (res, w3)"
      by (cases "reporter_write e r f rep w2")
    from reporter_write_events [of e r f rep w2] rw obtain evs where
      ev3: "events w3 = events w2 @ evs" by auto
    show ?thesis
      using ne cr Inr rw ev2 ev3
      by (simp add: generate_def Let_def w1_def [symmetric] err_Printf_def record_event_def
          file_Close_def os_Remove_def
          split: outcome.splits option.splits prod.splits)
  qed
qed

subsection \<open>Reports that exist, and the existence test\<close>

text \<open>
  C7. When the existence test of a report succeeds, generate logs that it starts,
  logs that the report exists and returns: the two log lines are all that happens
  (no create, no query, no write, no close, no remove), and every file is as it was.
\<close>

theorem generate_skips_existing:
  assumes "report_exists e w rep"
  shows "generate e r rep w =
           (Return (),
            w\<lparr>events := events w @ [LogInfo (r_fname rep @ '': generating report''),
                                     LogInfo (r_fname rep @ '': exists'')]\<rparr>)
         \<and> files (snd (generate e r rep w)) = files w
         \<and> new_events w (snd (generate e r rep w))
             = [LogInfo (r_fname rep @ '': generating report''),
                LogInfo (r_fname rep @ '': exists'')]"
  using generate_skip [OF assms, of r] by (simp add: new_events_def)

text \<open>A run of it: stat succeeds on the file that is there.\<close>

theorem generate_skips_existing_witness:
  "generate no_faults reporter0 rep_feb (empty_world\<lparr>files := (\<lambda>p. Some ''old'')\<rparr>)
     = (Return (),
        \<lparr>files = (\<lambda>p. Some ''old''),
         events = [LogInfo ''out/sys-2024-02.csv: generating report'',
                   LogInfo ''out/sys-2024-02.csv: exists'']\<rparr>)"
proof -
  have ex: "report_exists no_faults (empty_world\<lparr>files := (\<lambda>p. Some ''old'')\<rparr>) rep_feb"
    by (simp add: report_exists_iff os_Stat_def no_faults_def)
  show ?thesis
    using generate_skips_existing [OF ex, of reporter0]
    by (simp add: rep_feb_def empty_world_def)
qed

text \<open>
  C4, as the code has it. The existence test is the negation of "stat failed with
  not found": the report counts as existing when stat succeeds and also when stat
  fails with any other error, such as a permission error, and generate then skips it
  without reaching the create step. Only when stat fails with not found does
  generate go on, and its next call is the create of the file.
\<close>

theorem exists_unless_not_found:
  "report_exists e w rep = (os_Stat e w (r_fname rep) \<noteq> Some ENOENT)
   \<and> (os_Stat e w (r_fname rep) \<noteq> Some ENOENT \<longrightarrow>
        fst (generate e r rep w) = Return ()
        \<and> new_events w (snd (generate e r rep w))
            = [LogInfo (r_fname rep @ '': generating report''),
               LogInfo (r_fname rep @ '': exists'')])
   \<and> (os_Stat e w (r_fname rep) = Some ENOENT \<longrightarrow>
        prefix (events w @ [LogInfo (r_fname rep @ '': generating report''),
                            OsCreate (r_fname rep)])
               (events (snd (generate e r rep w))))"
proof (intro conjI impI)
  show iff: "report_exists e w rep = (os_Stat e w (r_fname rep) \<noteq> Some ENOENT)"
    by (rule report_exists_iff)
  assume "os_Stat e w (r_fname rep) \<noteq> Some ENOENT"
  then have ex: "report_exists e w rep" by (simp add: report_exists_iff)
  show "fst (generate e r rep w) = Return ()"
    using generate_skip [OF ex, of r] by simp
  show "new_events w (snd (generate e r rep w))
            = [LogInfo (r_fname rep @ '': generating report''),
               LogInfo (r_fname rep @ '': exists'')]"
    using generate_skip [OF ex, of r] by (simp add: new_events_def)
next
  assume "os_Stat e w (r_fname rep) = Some ENOENT"
  then have "\<not> report_exists e w rep" by (simp add: report_exists_iff)
  then show "prefix (events w @ [LogInfo (r_fname rep @ '': generating report''),
                            OsCreate (r_fname rep)])
               (events (snd (generate e r rep w)))"
    by (rule generate_reaches_create)
qed

theorem exists_unless_not_found_witness:
  "new_events empty_world (snd (generate env_stat_denied reporter0 rep_feb empty_world))
     = [LogInfo ''out/sys-2024-02.csv: generating report'',
        LogInfo ''out/sys-2024-02.csv: exists'']
   \<and> prefix [LogInfo ''out/sys-2024-02.csv: generating report'',
              OsCreate ''out/sys-2024-02.csv'']
             (events (snd (generate no_faults reporter0 rep_feb empty_world)))"
proof -
  have a: "os_Stat env_stat_denied empty_world (r_fname rep_feb) \<noteq> Some ENOENT"
    by (simp add: os_Stat_def env_stat_denied_def no_faults_def)
  have b: "os_Stat no_faults empty_world (r_fname rep_feb) = Some ENOENT"
    by (simp add: os_Stat_def no_faults_def empty_world_def)
  show ?thesis
    using exists_unless_not_found [of env_stat_denied empty_world rep_feb reporter0] a
      exists_unless_not_found [of no_faults empty_world rep_feb reporter0] b
    by (simp add: rep_feb_def empty_world_def)
qed

text \<open>
  C4 as stated fails: with a permission error from stat the report counts as
  existing, and generate logs the skip and returns without a create.
\<close>

theorem stat_permission_error_skips:
  "os_Stat env_stat_denied empty_world (r_fname rep_feb) = Some EACCES
   \<and> report_exists env_stat_denied empty_world rep_feb
   \<and> generate env_stat_denied reporter0 rep_feb empty_world
       = (Return (),
          \<lparr>files = (\<lambda>p. None),
           events = [LogInfo ''out/sys-2024-02.csv: generating report'',
                     LogInfo ''out/sys-2024-02.csv: exists'']\<rparr>)"
proof -
  have s: "os_Stat env_stat_denied empty_world (r_fname rep_feb) = Some EACCES"
    by (simp add: os_Stat_def env_stat_denied_def no_faults_def)
  then have ex: "report_exists env_stat_denied empty_world rep_feb"
    by (simp add: report_exists_iff)
  show ?thesis
    using s ex generate_skip [OF ex, of reporter0]
    by (simp add: rep_feb_def empty_world_def)
qed

subsection \<open>A final close that fails\<close>

text \<open>
  C10. When a report does not exist yet, its file is created and written without an
  error, and the final close fails, generate logs the failure with Fatalf, which ends
  the process: the call does not return, the close and the fatal log line are the
  last things that happen, no call of \<open>os.Remove\<close> is made at any point of the call,
  and the file is still there as the write left it.
\<close>

theorem final_close_failure_exits:
  assumes "\<not> report_exists e w rep"
    and "create_fault e (r_fname rep) = None"
    and "reporter_write e r (r_fname rep) rep
           (snd (os_Create e (r_fname rep)
                  (info_Printf (report_String rep @ '': generating report'') w)))
         = (Return None, w3)"
    and "close_fault e (r_fname rep) = Some err"
  shows "fst (generate e r rep w) = Exit
       \<and> events (snd (generate e r rep w))
           = events w3 @ [FileClose (r_fname rep),
                          LogErr (r_fname rep @ '': cannot close file: ''
                                  @ PathError ''close'' (r_fname rep) err)]
       \<and> files (snd (generate e r rep w)) = files w3
       \<and> files w3 (r_fname rep) \<noteq> None
       \<and> filter is_remove (new_events w (snd (generate e r rep w))) = []"
proof -
  define w1 where "w1 = info_Printf (report_String rep @ '': generating report'') w"
  define w2 where "w2 = snd (os_Create e (r_fname rep) w1)"
  have ne: "\<not> report_exists e w1 rep" using assms(1) by (simp add: w1_def info_Printf_def)
  have cr: "os_Create e (r_fname rep) w1 = (Inr (r_fname rep), w2)"
    using assms(2) by (simp add: w2_def os_Create_def Let_def)
  have rw: "reporter_write e r (r_fname rep) rep w2 = (Return None, w3)"
    using assms(3) by (simp add: w2_def w1_def)
  have gen: "generate e r rep w =
               (Exit, err_Printf (report_String rep @ '': cannot close file: ''
                                  @ PathError ''close'' (r_fname rep) err)
                        (record_event (FileClose (r_fname rep)) w3))"
    using ne cr rw assms(4)
    by (simp add: generate_def Let_def w1_def [symmetric] file_Close_def)
  have f2: "files w2 (r_fname rep) \<noteq> None"
    using assms(2) by (simp add: w2_def os_Create_def Let_def)
  have f3: "files w3 (r_fname rep) \<noteq> None"
    using reporter_write_files [OF f2, of e r rep] rw by simp
  have ev2: "events w2 = events w @ [LogInfo (r_fname rep @ '': generating report''),
                                     OsCreate (r_fname rep)]"
    using assms(2)
    by (simp add: w2_def w1_def os_Create_def Let_def info_Printf_def record_event_def
        report_String_def)
  from reporter_write_events [of e r "r_fname rep" rep w2] rw obtain evs where
    ev3: "events w3 = events w2 @ evs" and nr: "list_all (\<lambda>ev. \<not> is_remove ev) evs"
    by auto
  have "filter is_remove evs = []"
    using nr by (induction evs) auto
  then have nrm: "filter is_remove (new_events w (snd (generate e r rep w))) = []"
    by (simp add: gen new_events_def err_Printf_def record_event_def ev3 ev2)
  show ?thesis
    using f3 nrm
    by (simp add: gen err_Printf_def record_event_def report_String_def)
qed

text \<open>A run of it: one row is written, then the close fails.\<close>

theorem final_close_failure_exits_witness:
  "fst (generate env_close_fails reporter0 rep_feb empty_world) = Exit
   \<and> files (snd (generate env_close_fails reporter0 rep_feb empty_world)) (r_fname rep_feb)
        \<noteq> None
   \<and> filter is_remove
        (new_events empty_world (snd (generate env_close_fails reporter0 rep_feb empty_world)))
      = []"
proof -
  define w2 where "w2 = snd (os_Create env_close_fails (r_fname rep_feb)
           (info_Printf (report_String rep_feb @ '': generating report'') empty_world))"
  define w3 where "w3 = snd (reporter_write env_close_fails reporter0 (r_fname rep_feb) rep_feb w2)"
  have h1: "\<not> report_exists env_close_fails empty_world rep_feb"
    by (simp add: report_exists_iff os_Stat_def env_close_fails_def no_faults_def empty_world_def)
  have h2: "create_fault env_close_fails (r_fname rep_feb) = None"
    by (simp add: env_close_fails_def no_faults_def)
  have "fst (reporter_write env_close_fails reporter0 (r_fname rep_feb) rep_feb w2) = Return None"
    by (simp add: reporter_write_def report_rows_def Let_def extract_rows_def makeslice_def
        maxAlloc_def reporter0_def
        newReporter_def env_close_fails_def no_faults_def file_Write_def record_event_def
        w2_def os_Create_def case_prod_beta)
  then have h3: "reporter_write env_close_fails reporter0 (r_fname rep_feb) rep_feb
           (snd (os_Create env_close_fails (r_fname rep_feb)
                  (info_Printf (report_String rep_feb @ '': generating report'') empty_world)))
         = (Return None, w3)"
    unfolding w3_def w2_def [symmetric] by (simp add: prod_eq_iff)
  have h4: "close_fault env_close_fails (r_fname rep_feb) = Some EIO"
    by (simp add: env_close_fails_def no_faults_def)
  show ?thesis
    using final_close_failure_exits [OF h1 h2 h3 h4] by simp
qed

subsection \<open>Window expansion: how many reports\<close>

lemma reports_loop_length:
  "length (reports_loop tk i anchor reps) = length reps"
proof (induction tk i anchor reps rule: reports_loop.induct)
  case (1 tk i anchor reps)
  show ?case
  proof (cases "i < t_months tk")
    case True
    then show ?thesis
      using "1.IH" [OF True refl] by (subst reports_loop.simps) (simp add: Let_def)
  next
    case False
    then show ?thesis by (subst reports_loop.simps) simp
  qed
qed

lemma reports_admitted:
  "0 \<le> t_months tk \<Longrightarrow> 80 * t_months tk \<le> maxAlloc \<Longrightarrow>
   reports Local tk = Return (reports_loop tk 0 (Date (Year (t_t tk)) (Month (t_t tk)) 1 0 0 0 Local)
                               (replicate (nat (t_months tk)) zero_report))"
  by (simp add: reports_def makeslice_def Let_def)

lemma reports_too_many_months:
  "maxAlloc < 80 * t_months tk \<Longrightarrow> reports Local tk = Panic ''makeslice: len out of range''"
  by (simp add: reports_def makeslice_def Let_def)

text \<open>
  C5, as the code has it. With zero months reports returns the empty list. With a
  negative number of months it does not loop, and it does not return either: the
  allocation of the slice panics before the loop is entered.
\<close>

theorem reports_zero_and_negative:
  "(t_months tk = 0 \<longrightarrow> reports Local tk = Return [])
   \<and> (t_months tk < 0 \<longrightarrow> reports Local tk = Panic ''makeslice: len out of range'')"
proof (intro conjI impI)
  assume "t_months tk = 0"
  then show "reports Local tk = Return []"
    by (simp add: reports_def makeslice_def maxAlloc_def Let_def)
       (subst reports_loop.simps, simp)
next
  assume "t_months tk < 0"
  then show "reports Local tk = Panic ''makeslice: len out of range''"
    by (simp add: reports_def makeslice_def Let_def)
qed

theorem reports_zero_and_negative_witness:
  "reports UTC (task_march\<lparr>t_months := 0\<rparr>) = Return []
   \<and> reports UTC (task_march\<lparr>t_months := - 3\<rparr>) = Panic ''makeslice: len out of range''"
  using reports_zero_and_negative [of "task_march\<lparr>t_months := 0\<rparr>" UTC]
    reports_zero_and_negative [of "task_march\<lparr>t_months := - 3\<rparr>" UTC]
  by (simp add: task_march_def)

text \<open>C5 as stated fails: one month back into the future is a panic.\<close>

theorem reports_negative_months_panics:
  "reports UTC (task_march\<lparr>t_months := - 1\<rparr>) = Panic ''makeslice: len out of range''"
  by (simp add: reports_def makeslice_def Let_def task_march_def)

subsection \<open>What exec and work can return\<close>

lemma exec_not_error:
  assumes "open_fault e (t_dsn tk) = None"
  shows "fst (exec e Local tk w) \<noteq> Return (Some err)"
  using assms
  by (simp add: exec_def sql_Open_def Let_def split: outcome.splits prod.splits)

lemma work_error_is_open_error:
  assumes "fst (work e Local tk w) = Return (Some err)"
  shows "\<exists>oe. open_fault e (t_dsn tk) = Some oe
             \<and> err = ''creating report: '' @ t_name tk @ '': cannot connect to database: '' @ oe"
proof (cases "open_fault e (t_dsn tk)")
  case None
  obtain res w' where ex: "exec e Local tk w = (res, w')" by (cases "exec e Local tk w")
  have "res \<noteq> Return (Some x)" for x using exec_not_error [OF None, of Local w x] ex by simp
  moreover have "\<exists>x. res = Return (Some x)"
    using assms ex by (auto simp: work_def split: outcome.splits option.splits)
  ultimately show ?thesis by blast
next
  case (Some oe)
  then show ?thesis using assms
    by (simp add: work_def exec_def sql_Open_def)
qed

lemma singleton_of_length_1:
  "length xs = Suc 0 \<Longrightarrow> \<exists>x. xs = [x]"
  by (cases xs) auto

lemma work_exits_when_close_fails:
  assumes "t_months tk = 1" and "t_fields tk = 2"
  shows "fst (work env_close_fails Local tk empty_world) = Exit"
proof -
  have "0 \<le> t_months tk" "80 * t_months tk \<le> maxAlloc"
    using assms(1) by (simp_all add: maxAlloc_def)
  from reports_admitted [OF this, of Local] obtain reps where
    reps: "reports Local tk = Return reps" and "length reps = Suc 0"
    using assms(1) by (simp add: reports_loop_length)
  then obtain rep where one: "reps = [rep]" using singleton_of_length_1 by blast
  define r where "r = newReporter (t_dsn tk) (t_query tk) (t_fields tk)"
  have "fst (generate env_close_fails r rep empty_world) = Exit"
    using assms(2)
    by (simp add: generate_def Let_def report_exists_iff os_Stat_def os_Create_def
        info_Printf_def record_event_def empty_world_def env_close_fails_def no_faults_def
        reporter_write_def report_rows_def extract_rows_def makeslice_def maxAlloc_def
        r_def newReporter_def
        file_Write_def file_Close_def case_prod_beta)
  then obtain w' where g: "generate env_close_fails r rep empty_world = (Exit, w')"
    by (cases "generate env_close_fails r rep empty_world") auto
  have op: "sql_Open env_close_fails (t_dsn tk) = Inr (t_dsn tk)"
    by (simp add: sql_Open_def env_close_fails_def no_faults_def)
  have "exec env_close_fails Local tk empty_world = (Exit, w')"
    using op reps one g by (simp add: exec_def Let_def r_def [symmetric])
  then show ?thesis by (simp add: work_def)
qed

text \<open>
  C9 fails when the final close of a report file fails. The task is that of 15 March
  2024 for one month back; its database handle opens, the report of February 2024
  does not exist yet, it is created, the one row of the query is written, and the
  close of the file fails. generate then reaches Fatalf, which ends the process
  inside exec: exec does not return nil, it does not return, and the deferred close of
  the handle is not run; the fatal log line is the last thing that happens. The same
  task with a close that succeeds returns nil.
\<close>

theorem exec_exits_on_close_failure:
  "sql_Open env_close_fails (t_dsn task_march) = Inr ''dsn''
   \<and> fst (exec env_close_fails UTC task_march empty_world) = Exit
   \<and> events (snd (exec env_close_fails UTC task_march empty_world))
       = [LogInfo ''out/sys-2024-02.csv: generating report'',
          OsCreate ''out/sys-2024-02.csv'',
          DbQuery ''dsn'' ''SELECT a, b FROM log WHERE t BETWEEN ? AND ?''
            ''2024-02-01 00:00:00'' ''2024-02-29 23:59:59'',
          FileWrite ''out/sys-2024-02.csv''
            [dquote, CHR ''a'', dquote, CHR '';'', dquote, CHR ''b'', dquote,
             CHR 0x0D, CHR 0x0A],
          FileClose ''out/sys-2024-02.csv'',
          LogErr (''out/sys-2024-02.csv: cannot close file: ''
                  @ ''close out/sys-2024-02.csv: input/output error'')]
   \<and> fst (exec env_one_row UTC task_march empty_world) = Return None"
  by code_simp

subsection \<open>The dispatcher and a task that ends the process\<close>

text \<open>
  C8 fails where a task does not fail by returning an error. run starts one
  goroutine per system, and each runs work once the gate admits it. With the two
  systems of \<open>conf_two\<close>, one month back, and final closes that fail, work ends the
  process for whichever system is admitted first, \<open>a\<close> or \<open>b\<close>: the other system is
  never attempted, nothing is sent to the dispatcher, and run does not return.
\<close>

theorem close_failure_ends_every_task:
  "Systems conf_two = [(''a'', ''dsn_a''), (''b'', ''dsn_b'')]
   \<and> fst (work env_close_fails UTC (newTask now_march ''a'' ''dsn_a'' conf_two) empty_world) = Exit
   \<and> fst (work env_close_fails UTC (newTask now_march ''b'' ''dsn_b'' conf_two) empty_world) = Exit"
  by (simp add: work_exits_when_close_fails newTask_def conf_two_def)

subsection \<open>The capacity of the admission gate\<close>

text \<open>
  C1 is not what main does. The test of main is \<open>*parallel > 0\<close>: a positive
  setting is replaced by 1, a setting of zero (the default of the flag) is kept and
  gives a channel of capacity zero, and a negative setting is kept too and makes the
  allocation of the channel panic.
\<close>

theorem main_sem_capacity:
  "main_sem par =
     (if 0 < par then Return 1
      else if par = 0 then Return 0
      else Panic ''makechan: size out of range'')"
  by (simp add: main_sem_def main_parallel_def make_chan_def)

subsection \<open>The windows, where the local zone changes its offset\<close>

text \<open>
  makeReport finds the end of a window by going to midnight of the month's last day
  and adding 23 hours, 59 minutes and 59 seconds of elapsed time. On a day on which
  the local zone changes its offset that is not the last second of the day.

  C2 fails on such a day. Europe/Berlin went from UTC+1 to UTC+2 on 31 March 2024. Run
  there on 15 May 2024 for two months, reports gives April and March 2024, and the
  window of March ends at 00:59:59 on 1 April, one hour less a second after the
  window of April has begun: the two windows overlap, and the window of March is
  not one calendar month.
\<close>

theorem reports_overlap_at_offset_change:
  "windows (reports Europe_Berlin task_may_berlin) =
     [(''out/sys-2024-04.csv'', ''2024-04-01 00:00:00'', ''2024-04-30 23:59:59''),
      (''out/sys-2024-03.csv'', ''2024-03-01 00:00:00'', ''2024-04-01 00:59:59'')]
   \<and> instants (reports Europe_Berlin task_may_berlin) =
     [(1711922400, 1714514399), (1709247600, 1711925999)]"
  by code_simp

text \<open>
  C3 holds in the example of the specification (15 March 2024, two months, here in
  UTC) and fails for the same reason as C2: the report of March 2024 made in
  Europe/Berlin has the right file name and the right start, and its end is 00:59:59
  on 1 April, not 23:59:59 on 31 March.
\<close>

theorem march_window_ends_in_april:
  "windows (reports UTC (task_march\<lparr>t_months := 2\<rparr>)) =
     [(''out/sys-2024-02.csv'', ''2024-02-01 00:00:00'', ''2024-02-29 23:59:59''),
      (''out/sys-2024-01.csv'', ''2024-01-01 00:00:00'', ''2024-01-31 23:59:59'')]
   \<and> window (makeReport ''sys'' ''out'' (Date 2024 3 1 0 0 0 Europe_Berlin)) =
     (''out/sys-2024-03.csv'', ''2024-03-01 00:00:00'', ''2024-04-01 00:59:59'')"
  by code_simp


end
